theory Spec2Isabelle
  imports Complex_Main
begin

section \<open>Python values, exceptions and method calls\<close>

text \<open>
  The facade \<^verbatim>\<open>SuSisoChannel\<close> of \<^verbatim>\<open>pyphysim/channels/singleuser.py\<close> is embedded with
  explicit state passing. A method takes the object's state and returns the pair of its
  outcome and the state it leaves behind; the outcome is \<open>Inl e\<close> when the method raises
  \<open>e\<close> and \<open>Inr r\<close> when it returns \<open>r\<close>. The state is returned on a raise too, so
  that "raises and leaves the object untouched" is a statement about the model.

  A Python float is a real number, an infinity or NaN (\<open>pyfloat\<close>); an element of a
  numpy complex array is a complex number or \<open>NonFinite\<close>, an element with a NaN or
  infinite part (\<open>sample\<close>). Rounding is outside the model: a finite float is read as
  the real number it stands for.
\<close>

datatype pyfloat =
    Num real
  | PosInf
  | NegInf
  | NaN

text \<open>
  \<open>py_less a b\<close> is Python's \<^verbatim>\<open>a < b\<close> on floats (\<^verbatim>\<open>b > a\<close> likewise): every
  comparison with NaN is false.
\<close>

fun py_less :: "pyfloat \<Rightarrow> pyfloat \<Rightarrow> bool" where
  "py_less NaN b = False"
| "py_less a NaN = False"
| "py_less (Num x) (Num y) = (x < y)"
| "py_less (Num x) PosInf = True"
| "py_less (Num x) NegInf = False"
| "py_less NegInf NegInf = False"
| "py_less NegInf b = True"
| "py_less PosInf b = False"

datatype sample =
    Sample complex
  | NonFinite

datatype error =
    ValueError string
  | OtherError string

type_synonym ('a, 's) action = "'s \<Rightarrow> (error + 'a) \<times> 's"

text \<open>
  \<^verbatim>\<open>math.sqrt(x)\<close> raises \<^verbatim>\<open>ValueError("math domain error")\<close> on a negative argument,
  minus infinity included; it returns infinity on infinity and NaN on NaN.
\<close>

fun math_sqrt :: "pyfloat \<Rightarrow> error + pyfloat" where
  "math_sqrt (Num x) =
     (if x < 0 then Inl (ValueError ''math domain error'') else Inr (Num (sqrt x)))"
| "math_sqrt PosInf = Inr PosInf"
| "math_sqrt NegInf = Inl (ValueError ''math domain error'')"
| "math_sqrt NaN = Inr NaN"

section \<open>The collaborators of the facade\<close>

text \<open>
  The module \<^verbatim>\<open>pyphysim.channels.fading\<close> (\<^verbatim>\<open>TdlChannel\<close>, \<^verbatim>\<open>TdlImpulseResponse\<close>) is
  not among the sources. Its methods are parameters of the model: \<open>'c\<close> is the state of
  a \<^verbatim>\<open>TdlChannel\<close> object (its fading generator's state and its last impulse response),
  \<open>'ir\<close> the type of impulse responses and \<open>'idx\<close> the type of carrier index sets.
  Every method may raise and may change the inner state. \<open>ir_rmul s h\<close> is the product
  \<^verbatim>\<open>s * h\<close> of a float and what the inner channel returned as its last impulse
  response; it may raise too.
\<close>

record ('c, 'ir, 'idx) tdl_methods =
  tdl_corrupt_data :: "sample list \<Rightarrow> (sample list, 'c) action"
  tdl_corrupt_data_in_freq_domain ::
    "sample list \<Rightarrow> int \<Rightarrow> 'idx option \<Rightarrow> (sample list, 'c) action"
  tdl_get_last_impulse_response :: "('ir, 'c) action"
  ir_rmul :: "pyfloat \<Rightarrow> 'ir \<Rightarrow> error + 'ir"

section \<open>SuSisoChannel: state and path loss\<close>

record 'c SuSisoChannel =
  tdlchannel :: 'c
  pathloss_value :: "pyfloat option"

text \<open>
  \<^verbatim>\<open>set_pathloss(self, pathloss_value=None)\<close>: the range check comes first and the
  assignment last, so a raise leaves the attribute as it was. The check is the two
  comparisons \<^verbatim>\<open>pathloss_value < 0 or pathloss_value > 1\<close>, both false on NaN.
\<close>

definition set_pathloss :: "pyfloat option \<Rightarrow> (unit, 'c SuSisoChannel) action" where
  "set_pathloss v ch =
     (case v of
        None \<Rightarrow> (Inr (), ch\<lparr>pathloss_value := v\<rparr>)
      | Some x \<Rightarrow>
          if py_less x (Num 0) \<or> py_less (Num 1) x
          then (Inl (ValueError ''Pathloss must be between 0 and 1''), ch)
          else (Inr (), ch\<lparr>pathloss_value := v\<rparr>))"

text \<open>
  Binding of the call's argument: \<open>None\<close> is a call that passes no argument, which
  takes the default \<^verbatim>\<open>pathloss_value=None\<close> of the signature; \<open>Some a\<close> passes \<open>a\<close>.
\<close>

definition set_pathloss_call ::
  "pyfloat option option \<Rightarrow> (unit, 'c SuSisoChannel) action"
where
  "set_pathloss_call arg = set_pathloss (case arg of None \<Rightarrow> None | Some a \<Rightarrow> a)"

text \<open>
  \<^verbatim>\<open>output *= math.sqrt(self._pathloss_value)\<close>, elementwise on a complex array: the
  product of a complex number and a real number, and an element with a NaN or infinite
  part whenever the element or the factor is not finite.
\<close>

fun scale_sample :: "pyfloat \<Rightarrow> sample \<Rightarrow> sample" where
  "scale_sample (Num s) (Sample z) = Sample (z * complex_of_real s)"
| "scale_sample s e = NonFinite"

definition scale_output :: "pyfloat \<Rightarrow> sample list \<Rightarrow> sample list" where
  "scale_output s out = map (scale_sample s) out"

text \<open>
  \<^verbatim>\<open>corrupt_data\<close> and \<^verbatim>\<open>corrupt_data_in_freq_domain\<close>: the inner call returns or
  raises, leaving the inner state \<open>snd rc\<close>; a raise propagates, and a returned array is
  scaled in place when a path loss is set.
\<close>

definition corrupt_data ::
  "('c, 'ir, 'idx) tdl_methods \<Rightarrow> sample list \<Rightarrow> (sample list, 'c SuSisoChannel) action"
where
  "corrupt_data tdl signal ch =
     (let rc = tdl_corrupt_data tdl signal (tdlchannel ch);
          ch' = ch\<lparr>tdlchannel := snd rc\<rparr>
      in case fst rc of
           Inl e \<Rightarrow> (Inl e, ch')
         | Inr output \<Rightarrow>
             (case pathloss_value ch' of
                None \<Rightarrow> (Inr output, ch')
              | Some v \<Rightarrow>
                  (case math_sqrt v of
                     Inl e \<Rightarrow> (Inl e, ch')
                   | Inr s \<Rightarrow> (Inr (scale_output s output), ch'))))"

definition corrupt_data_in_freq_domain ::
  "('c, 'ir, 'idx) tdl_methods \<Rightarrow> sample list \<Rightarrow> int \<Rightarrow> 'idx option \<Rightarrow>
     (sample list, 'c SuSisoChannel) action"
where
  "corrupt_data_in_freq_domain tdl signal fft_size carrier_indexes ch =
     (let rc = tdl_corrupt_data_in_freq_domain tdl signal fft_size carrier_indexes
                 (tdlchannel ch);
          ch' = ch\<lparr>tdlchannel := snd rc\<rparr>
      in case fst rc of
           Inl e \<Rightarrow> (Inl e, ch')
         | Inr output \<Rightarrow>
             (case pathloss_value ch' of
                None \<Rightarrow> (Inr output, ch')
              | Some v \<Rightarrow>
                  (case math_sqrt v of
                     Inl e \<Rightarrow> (Inl e, ch')
                   | Inr s \<Rightarrow> (Inr (scale_output s output), ch'))))"

text \<open>
  \<^verbatim>\<open>get_last_impulse_response\<close>: without a path loss the inner call is returned as it
  is; with one, \<^verbatim>\<open>math.sqrt\<close> is evaluated first, then the inner call, then the product.
\<close>

definition get_last_impulse_response ::
  "('c, 'ir, 'idx) tdl_methods \<Rightarrow> ('ir, 'c SuSisoChannel) action"
where
  "get_last_impulse_response tdl ch =
     (case pathloss_value ch of
        None \<Rightarrow>
          (let rc = tdl_get_last_impulse_response tdl (tdlchannel ch)
           in (fst rc, ch\<lparr>tdlchannel := snd rc\<rparr>))
      | Some v \<Rightarrow>
          (case math_sqrt v of
             Inl e \<Rightarrow> (Inl e, ch)
           | Inr s \<Rightarrow>
               (let rc = tdl_get_last_impulse_response tdl (tdlchannel ch);
                    ch' = ch\<lparr>tdlchannel := snd rc\<rparr>
                in case fst rc of
                     Inl e \<Rightarrow> (Inl e, ch')
                   | Inr h \<Rightarrow> (ir_rmul tdl s h, ch'))))"

section \<open>SuSisoChannel: construction\<close>

text \<open>
  The module \<^verbatim>\<open>pyphysim.channels.fading_generators\<close> is not among the sources either.
  \<open>RayleighSampleGenerator\<close> is the object that the call
  \<^verbatim>\<open>fading_generators.RayleighSampleGenerator()\<close> returns, \<open>GivenGenerator g\<close> a generator
  \<open>g\<close> that the caller passed.
\<close>

datatype 'g fading_generator =
    RayleighSampleGenerator
  | GivenGenerator 'g

text \<open>
  The arguments of one call of \<^verbatim>\<open>fading.TdlChannel(...)\<close>. An argument the call does not
  pass is \<open>None\<close>; \<^verbatim>\<open>np.zeros(1)\<close> is the array \<open>[0]\<close>.
\<close>

record ('g, 'p) TdlChannel_args =
  arg_fading_generator :: "'g fading_generator"
  arg_channel_profile :: "'p option"
  arg_tap_powers_dB :: "real list option"
  arg_tap_delays :: "real list option"
  arg_Ts :: "real option"

text \<open>
  \<^verbatim>\<open>SuSisoChannel.__init__\<close>, up to the call of \<^verbatim>\<open>fading.TdlChannel\<close>: the first \<^verbatim>\<open>if\<close>
  replaces a missing generator (and, inside it, a missing \<^verbatim>\<open>Ts\<close> when no profile is
  given); the second chooses between the flat-fading call and the call that hands the
  caller's arguments on.
\<close>

definition SuSisoChannel_TdlChannel_args ::
  "'g option \<Rightarrow> 'p option \<Rightarrow> real list option \<Rightarrow> real list option \<Rightarrow> real option \<Rightarrow>
     ('g, 'p) TdlChannel_args"
where
  "SuSisoChannel_TdlChannel_args fading_generator channel_profile tap_powers_dB tap_delays Ts =
     (let gen_Ts =
            (case fading_generator of
               None \<Rightarrow>
                 (RayleighSampleGenerator,
                  if channel_profile = None \<and> Ts = None then Some 1 else Ts)
             | Some g \<Rightarrow> (GivenGenerator g, Ts))
      in if channel_profile = None \<and> tap_powers_dB = None \<and> tap_delays = None
         then \<lparr>arg_fading_generator = fst gen_Ts,
               arg_channel_profile = None,
               arg_tap_powers_dB = Some [0],
               arg_tap_delays = Some [0],
               arg_Ts = snd gen_Ts\<rparr>
         else \<lparr>arg_fading_generator = fst gen_Ts,
               arg_channel_profile = channel_profile,
               arg_tap_powers_dB = tap_powers_dB,
               arg_tap_delays = tap_delays,
               arg_Ts = snd gen_Ts\<rparr>)"

text \<open>
  The whole constructor. \<open>TdlChannel\<close> is the constructor of the inner channel, a
  parameter: it may raise, and then no facade object exists. Otherwise the path loss
  starts as \<open>None\<close>.
\<close>

definition SuSisoChannel_init ::
  "(('g, 'p) TdlChannel_args \<Rightarrow> error + 'c) \<Rightarrow>
     'g option \<Rightarrow> 'p option \<Rightarrow> real list option \<Rightarrow> real list option \<Rightarrow> real option \<Rightarrow>
     error + 'c SuSisoChannel"
where
  "SuSisoChannel_init TdlChannel fading_generator channel_profile tap_powers_dB tap_delays Ts =
     (case TdlChannel (SuSisoChannel_TdlChannel_args fading_generator channel_profile
                         tap_powers_dB tap_delays Ts) of
        Inl e \<Rightarrow> Inl e
      | Inr c \<Rightarrow> Inr \<lparr>tdlchannel = c, pathloss_value = None\<rparr>)"

text \<open>
  Modelled from the spec: the conversion of a tap power from dB to linear scale, which
  \<^verbatim>\<open>TdlChannel\<close> performs (section 4.2, step 1: "power = 10^(dB/10)").
\<close>

definition dB2Linear :: "real \<Rightarrow> real" where
  "dB2Linear dB = 10 powr (dB / 10)"

text \<open>
  Modelled from the spec: the constructor \<^verbatim>\<open>TdlChannel.__init__\<close> of
  \<^verbatim>\<open>pyphysim.channels.fading\<close>, which is not among the sources. The spec says of it that
  "mismatched lengths always fail construction" (section 8), that "inconsistent
  combinations (e.g. tap powers without matching delays) must fail at construction with
  a clear error, not silently truncate" (section 4.3) and that configuration errors
  "fail immediately and loudly; never silently coerced" (section 7). \<open>taps_consistent\<close>
  is the condition these sentences ask for: tap powers and tap delays are given together
  and have the same length, or neither is given.
\<close>

definition taps_consistent :: "real list option \<Rightarrow> real list option \<Rightarrow> bool" where
  "taps_consistent tap_powers_dB tap_delays =
     (case tap_powers_dB of
        None \<Rightarrow> (case tap_delays of None \<Rightarrow> True | Some ds \<Rightarrow> False)
      | Some ps \<Rightarrow> (case tap_delays of None \<Rightarrow> False | Some ds \<Rightarrow> length ps = length ds))"

text \<open>
  Modelled from the spec: \<^verbatim>\<open>TdlChannel.__init__\<close> checks the tap arrays first and raises
  when they are not consistent; what it does with consistent arguments is the parameter
  \<open>build\<close>.
\<close>

definition TdlChannel_init_spec ::
  "(('g, 'p) TdlChannel_args \<Rightarrow> error + 'c) \<Rightarrow> ('g, 'p) TdlChannel_args \<Rightarrow> error + 'c"
where
  "TdlChannel_init_spec build args =
     (if taps_consistent (arg_tap_powers_dB args) (arg_tap_delays args)
      then build args
      else Inl (ValueError ''tap powers and tap delays do not match''))"

section \<open>A client of the facade\<close>

text \<open>
  A client calls the public methods one after another and catches what they raise, so
  the object lives on after a failed call. \<open>invoke\<close> is one call, \<open>run\<close> a sequence of
  calls with the list of their outcomes.
\<close>

datatype 'idx call =
    Set_pathloss "pyfloat option"
  | Corrupt_data "sample list"
  | Corrupt_data_in_freq_domain "sample list" int "'idx option"
  | Get_last_impulse_response

datatype 'ir reply =
    Nothing
  | Signal "sample list"
  | Response 'ir

fun invoke ::
  "('c, 'ir, 'idx) tdl_methods \<Rightarrow> 'idx call \<Rightarrow> ('ir reply, 'c SuSisoChannel) action"
where
  "invoke tdl (Set_pathloss v) ch =
     (let r = set_pathloss v ch in (map_sum id (\<lambda>u. Nothing) (fst r), snd r))"
| "invoke tdl (Corrupt_data signal) ch =
     (let r = corrupt_data tdl signal ch in (map_sum id Signal (fst r), snd r))"
| "invoke tdl (Corrupt_data_in_freq_domain signal fft_size carrier_indexes) ch =
     (let r = corrupt_data_in_freq_domain tdl signal fft_size carrier_indexes ch
      in (map_sum id Signal (fst r), snd r))"
| "invoke tdl Get_last_impulse_response ch =
     (let r = get_last_impulse_response tdl ch in (map_sum id Response (fst r), snd r))"

fun run ::
  "('c, 'ir, 'idx) tdl_methods \<Rightarrow> 'idx call list \<Rightarrow> 'c SuSisoChannel \<Rightarrow>
     (error + 'ir reply) list \<times> 'c SuSisoChannel"
where
  "run tdl [] ch = ([], ch)"
| "run tdl (c # cs) ch =
     (let r = invoke tdl c ch; rs = run tdl cs (snd r) in (fst r # fst rs, snd rs))"

text \<open>
  The range of the stored path loss. \<open>pathloss_positive\<close> is the data model of the spec
  (section 3: "an optional scalar pathloss_value in (0, 1] or None").
  \<open>pathloss_number_in_range\<close> speaks of numbers only: a stored number lies in the
  closed interval, an infinity is never stored, and nothing is said of NaN.
\<close>

fun pathloss_positive :: "pyfloat option \<Rightarrow> bool" where
  "pathloss_positive None = True"
| "pathloss_positive (Some (Num v)) = (0 < v \<and> v \<le> 1)"
| "pathloss_positive (Some x) = False"

fun pathloss_number_in_range :: "pyfloat option \<Rightarrow> bool" where
  "pathloss_number_in_range None = True"
| "pathloss_number_in_range (Some (Num v)) = (0 \<le> v \<and> v \<le> 1)"
| "pathloss_number_in_range (Some NaN) = True"
| "pathloss_number_in_range (Some x) = False"

section \<open>A concrete inner channel\<close>

text \<open>
  An instance of the collaborators on which the facade is evaluated at concrete inputs:
  a static channel with one tap of gain \<open>h\<close> at delay zero. Its state is its last
  impulse response (\<open>None\<close> before the first corruption), an impulse response is the
  list of its tap gains, and both corruption methods multiply every sample by \<open>h\<close>.
\<close>

fun one_tap_gain :: "complex \<Rightarrow> sample \<Rightarrow> sample" where
  "one_tap_gain h (Sample z) = Sample (h * z)"
| "one_tap_gain h NonFinite = NonFinite"

definition one_tap_corrupt ::
  "complex \<Rightarrow> sample list \<Rightarrow> (sample list, sample list option) action"
where
  "one_tap_corrupt h signal c = (Inr (map (one_tap_gain h) signal), Some [Sample h])"

definition one_tap_last_response :: "(sample list, sample list option) action" where
  "one_tap_last_response c =
     (case c of
        None \<Rightarrow> (Inl (OtherError ''no impulse response yet''), c)
      | Some h \<Rightarrow> (Inr h, c))"

definition one_tap_rmul :: "pyfloat \<Rightarrow> sample list \<Rightarrow> error + sample list" where
  "one_tap_rmul s h = Inr (map (scale_sample s) h)"

definition one_tap_channel ::
  "complex \<Rightarrow> (sample list option, sample list, nat list) tdl_methods"
where
  "one_tap_channel h =
     \<lparr>tdl_corrupt_data = one_tap_corrupt h,
      tdl_corrupt_data_in_freq_domain =
        (\<lambda>signal fft_size carrier_indexes. one_tap_corrupt h signal),
      tdl_get_last_impulse_response = one_tap_last_response,
      ir_rmul = one_tap_rmul\<rparr>"

definition one_tap_TdlChannel ::
  "(unit, unit) TdlChannel_args \<Rightarrow> error + sample list option"
where
  "one_tap_TdlChannel args = Inr None"

definition fresh_channel :: "sample list option SuSisoChannel" where
  "fresh_channel = \<lparr>tdlchannel = None, pathloss_value = None\<rparr>"

section \<open>randn_c\<close>

text \<open>
  A numpy array is its shape and its elements in row-major order. numpy's global random
  generator is a state \<open>'r\<close> with a function \<open>draw\<close> that returns one sample and the
  next state, a parameter of the model; \<^verbatim>\<open>np.random.randn(*args)\<close> fills an array of shape
  \<open>args\<close> with successive samples (one sample for no argument). The shape is a list of
  naturals: numpy raises on a negative or fractional dimension.
\<close>

record 'a ndarray =
  shape :: "nat list"
  data :: "'a list"

fun draws :: "('r \<Rightarrow> real \<times> 'r) \<Rightarrow> nat \<Rightarrow> 'r \<Rightarrow> real list \<times> 'r" where
  "draws draw 0 r = ([], r)"
| "draws draw (Suc n) r =
     (let xr = draw r; xs = draws draw n (snd xr) in (fst xr # fst xs, snd xs))"

definition randn :: "('r \<Rightarrow> real \<times> 'r) \<Rightarrow> nat list \<Rightarrow> 'r \<Rightarrow> real ndarray \<times> 'r" where
  "randn draw args r =
     (let xs = draws draw (prod_list args) r in (\<lparr>shape = args, data = fst xs\<rparr>, snd xs))"

text \<open>
  The array operations of the one expression of \<^verbatim>\<open>randn_c\<close>: a complex scalar times a
  real array (\<^verbatim>\<open>1j * y\<close>), a real array plus a complex array of the same shape, and a
  real scalar times a complex array.
\<close>

definition complex_times_real_array :: "complex \<Rightarrow> real ndarray \<Rightarrow> complex ndarray" where
  "complex_times_real_array k a =
     \<lparr>shape = shape a, data = map (\<lambda>x. k * complex_of_real x) (data a)\<rparr>"

definition real_array_plus :: "real ndarray \<Rightarrow> complex ndarray \<Rightarrow> complex ndarray" where
  "real_array_plus a b =
     \<lparr>shape = shape a, data = map2 (\<lambda>x z. complex_of_real x + z) (data a) (data b)\<rparr>"

definition real_times_array :: "real \<Rightarrow> complex ndarray \<Rightarrow> complex ndarray" where
  "real_times_array k a =
     \<lparr>shape = shape a, data = map (\<lambda>z. complex_of_real k * z) (data a)\<rparr>"

text \<open>
  \<^verbatim>\<open>randn_c(*args)\<close>: Python evaluates the left operand of \<^verbatim>\<open>+\<close> first, so the real
  parts are drawn before the imaginary parts.
\<close>

definition randn_c :: "('r \<Rightarrow> real \<times> 'r) \<Rightarrow> nat list \<Rightarrow> 'r \<Rightarrow> complex ndarray \<times> 'r" where
  "randn_c draw args r =
     (let x = randn draw args r;
          y = randn draw args (snd x)
      in (real_times_array (1 / sqrt 2)
            (real_array_plus (fst x) (complex_times_real_array \<i> (fst y))),
          snd y))"

text \<open>
  A concrete generator on which \<^verbatim>\<open>randn_c\<close> is evaluated: the state is a natural
  number, a draw returns \<open>1\<close> or \<open>-1\<close> by the state's parity and halves the state.
  Over the four starting states \<open>0, 1, 2, 3\<close>, each as likely as the others, two
  successive draws are independent with mean \<open>0\<close> and variance \<open>1\<close>; \<open>mean4\<close> is the
  expectation over these four states.
\<close>

definition coin_draw :: "nat \<Rightarrow> real \<times> nat" where
  "coin_draw r = (if even r then 1 else - 1, r div 2)"

definition mean4 :: "(nat \<Rightarrow> real) \<Rightarrow> real" where
  "mean4 f = (f 0 + f 1 + f 2 + f 3) / 4"

section \<open>Path loss: the range check\<close>

text \<open>
  What the range check does on every argument: \<^verbatim>\<open>set_pathloss(v)\<close> raises the ValueError
  exactly when \<open>v\<close> is a number below \<open>0\<close> or above \<open>1\<close>, or an infinity; it returns on
  \<open>None\<close>, on every number of \<open>[0, 1]\<close> and on NaN. A call that raises leaves the object
  as it was, and a call that returns stores \<open>v\<close>.
\<close>

lemma set_pathloss_outcome:
  "((\<exists>e. fst (set_pathloss v ch) = Inl e) =
      ((\<exists>x. v = Some (Num x) \<and> (x < 0 \<or> 1 < x)) \<or> v = Some PosInf \<or> v = Some NegInf))
   \<and> ((\<exists>e. fst (set_pathloss v ch) = Inl e) =
        (fst (set_pathloss v ch) = Inl (ValueError ''Pathloss must be between 0 and 1'')))
   \<and> snd (set_pathloss v ch) =
        (if \<exists>e. fst (set_pathloss v ch) = Inl e then ch else ch\<lparr>pathloss_value := v\<rparr>)"
proof (cases v)
  case None
  then show ?thesis by (simp add: set_pathloss_def)
next
  case (Some x)
  then show ?thesis by (cases x) (auto simp add: set_pathloss_def)
qed

text \<open>
  C2. The claim fails on NaN, and on NaN only (\<open>set_pathloss_outcome\<close>): both
  comparisons of the guard are false on \<^verbatim>\<open>float('nan')\<close>, so \<^verbatim>\<open>set_pathloss(float('nan'))\<close>
  returns and stores NaN, a value that is not \<open>None\<close> and does not lie in \<open>[0, 1]\<close>;
  after it \<^verbatim>\<open>corrupt_data\<close> returns an array without a finite element.
\<close>

theorem set_pathloss_stores_NaN:
  "set_pathloss (Some NaN) fresh_channel = (Inr (), fresh_channel\<lparr>pathloss_value := Some NaN\<rparr>)
   \<and> \<not> py_less NaN (Num 0) \<and> \<not> py_less (Num 1) NaN
   \<and> \<not> py_less (Num 0) NaN \<and> \<not> py_less NaN (Num 1) \<and> NaN \<noteq> Num 0 \<and> NaN \<noteq> Num 1
   \<and> fst (run (one_tap_channel 1) [Set_pathloss (Some NaN), Corrupt_data [Sample 1, Sample \<i>]]
            fresh_channel)
       = [Inr Nothing, Inr (Signal [NonFinite, NonFinite])]"
  by (simp add: set_pathloss_def corrupt_data_def fresh_channel_def one_tap_channel_def
      one_tap_corrupt_def scale_output_def Let_def)

section \<open>Construction: the flat-fading defaults\<close>

text \<open>
  C3. \<^verbatim>\<open>SuSisoChannel()\<close> with no argument calls \<^verbatim>\<open>fading.TdlChannel\<close> with a Rayleigh
  generator, no profile, the one tap power \<open>0\<close> dB (linear power \<open>1\<close>), the one tap delay
  \<open>0\<close> and \<open>Ts = 1\<close>; the object built holds the channel that call returns, with no path
  loss, and the construction raises what that call raises.
\<close>

theorem SuSisoChannel_default_flat_fading:
  "SuSisoChannel_TdlChannel_args None None None None None =
     \<lparr>arg_fading_generator = RayleighSampleGenerator,
      arg_channel_profile = None,
      arg_tap_powers_dB = Some [0],
      arg_tap_delays = Some [0],
      arg_Ts = Some 1\<rparr>
   \<and> map_option length
        (arg_tap_powers_dB (SuSisoChannel_TdlChannel_args None None None None None)) = Some 1
   \<and> map_option (map dB2Linear)
        (arg_tap_powers_dB (SuSisoChannel_TdlChannel_args None None None None None)) = Some [1]
   \<and> SuSisoChannel_init TdlChannel None None None None None =
        (case TdlChannel \<lparr>arg_fading_generator = RayleighSampleGenerator,
                          arg_channel_profile = None,
                          arg_tap_powers_dB = Some [0],
                          arg_tap_delays = Some [0],
                          arg_Ts = Some 1\<rparr> of
           Inl e \<Rightarrow> Inl e
         | Inr c \<Rightarrow> Inr \<lparr>tdlchannel = c, pathloss_value = None\<rparr>)"
  by (simp add: SuSisoChannel_TdlChannel_args_def SuSisoChannel_init_def dB2Linear_def)

text \<open>
  C7. A generator \<open>g\<close> passed alone (no profile, no tap powers, no tap delays) gives the
  flat-fading call of the default construction with \<open>g\<close> as the generator: no profile,
  the one tap power \<open>0\<close> dB and the one tap delay \<open>0\<close>, the same taps as with no argument
  at all. \<^verbatim>\<open>Ts\<close> is handed on as the caller gave it.
\<close>

theorem SuSisoChannel_generator_alone_flat_fading:
  "SuSisoChannel_TdlChannel_args (Some g) None None None Ts =
     \<lparr>arg_fading_generator = GivenGenerator g,
      arg_channel_profile = None,
      arg_tap_powers_dB = Some [0],
      arg_tap_delays = Some [0],
      arg_Ts = Ts\<rparr>
   \<and> SuSisoChannel_TdlChannel_args (Some g) None None None Ts =
       (SuSisoChannel_TdlChannel_args None None None None None)
         \<lparr>arg_fading_generator := GivenGenerator g, arg_Ts := Ts\<rparr>
   \<and> SuSisoChannel_init TdlChannel (Some g) None None None Ts =
        (case TdlChannel \<lparr>arg_fading_generator = GivenGenerator g,
                          arg_channel_profile = None,
                          arg_tap_powers_dB = Some [0],
                          arg_tap_delays = Some [0],
                          arg_Ts = Ts\<rparr> of
           Inl e \<Rightarrow> Inl e
         | Inr c \<Rightarrow> Inr \<lparr>tdlchannel = c, pathloss_value = None\<rparr>)"
  by (simp add: SuSisoChannel_TdlChannel_args_def SuSisoChannel_init_def)

text \<open>
  C9. The default \<open>Ts = 1\<close> is set only inside the branch that replaces a missing
  generator: with a generator \<open>g\<close> and no \<^verbatim>\<open>Ts\<close> the inner channel is called with
  \<open>Ts = None\<close>, with no argument at all it is called with \<open>Ts = 1\<close>. In general the
  \<^verbatim>\<open>Ts\<close> handed on is \<open>1\<close> exactly when generator, profile and \<^verbatim>\<open>Ts\<close> are all missing,
  and the caller's \<^verbatim>\<open>Ts\<close> otherwise. The last three conjuncts give the call of
  \<^verbatim>\<open>fading.TdlChannel\<close> that the constructor makes, argument by argument: for a generator
  alone, for no argument, and for any arguments.
\<close>

theorem SuSisoChannel_Ts_default_only_without_generator:
  "arg_Ts (SuSisoChannel_TdlChannel_args (Some g) None None None None) = None
   \<and> arg_Ts (SuSisoChannel_TdlChannel_args None None None None None) = Some 1
   \<and> arg_Ts (SuSisoChannel_TdlChannel_args (Some g) channel_profile tap_powers_dB tap_delays Ts)
       = Ts
   \<and> arg_Ts (SuSisoChannel_TdlChannel_args fading_generator channel_profile tap_powers_dB
                tap_delays Ts)
       = (if fading_generator = None \<and> channel_profile = None \<and> Ts = None then Some 1
          else Ts)
   \<and> SuSisoChannel_init TdlChannel (Some g) None None None None =
        (case TdlChannel \<lparr>arg_fading_generator = GivenGenerator g,
                          arg_channel_profile = None,
                          arg_tap_powers_dB = Some [0],
                          arg_tap_delays = Some [0],
                          arg_Ts = None\<rparr> of
           Inl e \<Rightarrow> Inl e
         | Inr c \<Rightarrow> Inr \<lparr>tdlchannel = c, pathloss_value = None\<rparr>)
   \<and> SuSisoChannel_init TdlChannel None None None None None =
        (case TdlChannel \<lparr>arg_fading_generator = RayleighSampleGenerator,
                          arg_channel_profile = None,
                          arg_tap_powers_dB = Some [0],
                          arg_tap_delays = Some [0],
                          arg_Ts = Some 1\<rparr> of
           Inl e \<Rightarrow> Inl e
         | Inr c \<Rightarrow> Inr \<lparr>tdlchannel = c, pathloss_value = None\<rparr>)
   \<and> SuSisoChannel_init TdlChannel fading_generator channel_profile tap_powers_dB tap_delays Ts =
        (case TdlChannel
                \<lparr>arg_fading_generator =
                   (case fading_generator of
                      None \<Rightarrow> RayleighSampleGenerator
                    | Some g' \<Rightarrow> GivenGenerator g'),
                 arg_channel_profile = channel_profile,
                 arg_tap_powers_dB =
                   (if channel_profile = None \<and> tap_powers_dB = None \<and> tap_delays = None
                    then Some [0] else tap_powers_dB),
                 arg_tap_delays =
                   (if channel_profile = None \<and> tap_powers_dB = None \<and> tap_delays = None
                    then Some [0] else tap_delays),
                 arg_Ts =
                   (if fading_generator = None \<and> channel_profile = None \<and> Ts = None
                    then Some 1 else Ts)\<rparr> of
           Inl e \<Rightarrow> Inl e
         | Inr c \<Rightarrow> Inr \<lparr>tdlchannel = c, pathloss_value = None\<rparr>)"
  by (cases fading_generator)
     (simp_all add: SuSisoChannel_TdlChannel_args_def SuSisoChannel_init_def Let_def)

section \<open>Path loss: scaling of the corrupted signal\<close>

text \<open>
  C1. Let \<open>0 \<le> v \<le> 1\<close>. Then \<^verbatim>\<open>set_pathloss(v)\<close> returns and stores \<open>v\<close>, and from that
  state \<^verbatim>\<open>corrupt_data\<close> and \<^verbatim>\<open>corrupt_data_in_freq_domain\<close> return the array that the
  same call returns with the path loss disabled, every element \<open>z\<close> of it replaced by
  \<open>z * sqrt v\<close> (an element that is not finite stays so); the comparison starts both
  calls in the same inner state, so the inner channel draws the same fading samples, and
  both leave the same inner state behind. A raise of the inner channel propagates alike
  in both. With the path loss disabled the facade returns the inner channel's output as
  it is.
\<close>

theorem corrupt_data_pathloss_scaling:
  assumes "0 \<le> v" and "v \<le> 1"
  shows
  "set_pathloss (Some (Num v)) ch = (Inr (), ch\<lparr>pathloss_value := Some (Num v)\<rparr>)
   \<and> fst (corrupt_data tdl signal (snd (set_pathloss (Some (Num v)) ch))) =
       map_sum id
         (map (\<lambda>e. case e of
                      Sample z \<Rightarrow> Sample (z * complex_of_real (sqrt v))
                    | NonFinite \<Rightarrow> NonFinite))
         (fst (corrupt_data tdl signal (snd (set_pathloss None ch))))
   \<and> fst (corrupt_data_in_freq_domain tdl signal fft_size carrier_indexes
            (snd (set_pathloss (Some (Num v)) ch))) =
       map_sum id
         (map (\<lambda>e. case e of
                      Sample z \<Rightarrow> Sample (z * complex_of_real (sqrt v))
                    | NonFinite \<Rightarrow> NonFinite))
         (fst (corrupt_data_in_freq_domain tdl signal fft_size carrier_indexes
                 (snd (set_pathloss None ch))))
   \<and> tdlchannel (snd (corrupt_data tdl signal (snd (set_pathloss (Some (Num v)) ch)))) =
       tdlchannel (snd (corrupt_data tdl signal (snd (set_pathloss None ch))))
   \<and> tdlchannel (snd (corrupt_data_in_freq_domain tdl signal fft_size carrier_indexes
                         (snd (set_pathloss (Some (Num v)) ch)))) =
       tdlchannel (snd (corrupt_data_in_freq_domain tdl signal fft_size carrier_indexes
                         (snd (set_pathloss None ch))))
   \<and> corrupt_data tdl signal (snd (set_pathloss None ch)) =
       (fst (tdl_corrupt_data tdl signal (tdlchannel ch)),
        ch\<lparr>tdlchannel := snd (tdl_corrupt_data tdl signal (tdlchannel ch)),
           pathloss_value := None\<rparr>)
   \<and> corrupt_data_in_freq_domain tdl signal fft_size carrier_indexes
         (snd (set_pathloss None ch)) =
       (fst (tdl_corrupt_data_in_freq_domain tdl signal fft_size carrier_indexes
               (tdlchannel ch)),
        ch\<lparr>tdlchannel :=
             snd (tdl_corrupt_data_in_freq_domain tdl signal fft_size carrier_indexes
                    (tdlchannel ch)),
           pathloss_value := None\<rparr>)"
proof -
  have elementwise: "scale_sample (Num (sqrt v)) =
      (\<lambda>e. case e of Sample z \<Rightarrow> Sample (z * complex_of_real (sqrt v))
                    | NonFinite \<Rightarrow> NonFinite)"
    by (rule ext) (simp split: sample.splits)
  have stored: "\<not> py_less (Num v) (Num 0) \<and> \<not> py_less (Num 1) (Num v)"
    using assms by simp
  show ?thesis
    using assms stored
    by (simp add: set_pathloss_def corrupt_data_def corrupt_data_in_freq_domain_def
        scale_output_def elementwise Let_def split: sum.splits)
qed

theorem corrupt_data_pathloss_scaling_witness:
  "(0::real) \<le> 1 / 4 \<and> (1::real) / 4 \<le> 1
   \<and> fst (corrupt_data (one_tap_channel 1) [Sample 1, Sample \<i>, Sample 2]
            (snd (set_pathloss None fresh_channel))) = Inr [Sample 1, Sample \<i>, Sample 2]
   \<and> fst (corrupt_data (one_tap_channel 1) [Sample 1, Sample \<i>, Sample 2]
            (snd (set_pathloss (Some (Num (1 / 4))) fresh_channel)))
       = Inr [Sample (1 / 2), Sample (\<i> / 2), Sample 1]"
  using corrupt_data_pathloss_scaling [of "1 / 4" fresh_channel "one_tap_channel 1"
      "[Sample 1, Sample \<i>, Sample 2]"]
  by (simp add: corrupt_data_def set_pathloss_def fresh_channel_def one_tap_channel_def
      one_tap_corrupt_def Let_def scale_output_def real_sqrt_divide)

text \<open>
  C10. A call \<^verbatim>\<open>set_pathloss()\<close> without an argument does what \<^verbatim>\<open>set_pathloss(None)\<close>
  does: it returns and stores \<open>None\<close>. From the state it leaves, \<^verbatim>\<open>corrupt_data\<close>,
  \<^verbatim>\<open>corrupt_data_in_freq_domain\<close> and \<^verbatim>\<open>get_last_impulse_response\<close> hand back what the
  inner channel returns or raises, unscaled, and the path loss stays \<open>None\<close>.
\<close>

theorem set_pathloss_default_disables:
  "set_pathloss_call None ch = set_pathloss_call (Some None) ch
   \<and> set_pathloss_call None ch = (Inr (), ch\<lparr>pathloss_value := None\<rparr>)
   \<and> corrupt_data tdl signal (snd (set_pathloss_call None ch)) =
       (fst (tdl_corrupt_data tdl signal (tdlchannel ch)),
        ch\<lparr>tdlchannel := snd (tdl_corrupt_data tdl signal (tdlchannel ch)),
           pathloss_value := None\<rparr>)
   \<and> corrupt_data_in_freq_domain tdl signal fft_size carrier_indexes
         (snd (set_pathloss_call None ch)) =
       (fst (tdl_corrupt_data_in_freq_domain tdl signal fft_size carrier_indexes
               (tdlchannel ch)),
        ch\<lparr>tdlchannel :=
             snd (tdl_corrupt_data_in_freq_domain tdl signal fft_size carrier_indexes
                    (tdlchannel ch)),
           pathloss_value := None\<rparr>)
   \<and> get_last_impulse_response tdl (snd (set_pathloss_call None ch)) =
       (fst (tdl_get_last_impulse_response tdl (tdlchannel ch)),
        ch\<lparr>tdlchannel := snd (tdl_get_last_impulse_response tdl (tdlchannel ch)),
           pathloss_value := None\<rparr>)"
  by (simp add: set_pathloss_call_def set_pathloss_def corrupt_data_def
      corrupt_data_in_freq_domain_def get_last_impulse_response_def Let_def
      split: sum.splits)

section \<open>Path loss: the last impulse response\<close>

text \<open>
  C4. \<^verbatim>\<open>get_last_impulse_response\<close> multiplies the inner response by the square root of
  the path loss stored when it is called, not of the path loss that scaled the last
  corrupted signal. On the one-tap channel of gain \<open>1\<close>, with path loss \<open>1/4\<close> the signal
  \<open>[1]\<close> comes back as \<open>[1/2]\<close> where the inner channel returned \<open>[1]\<close>, so the scaling
  applied was \<open>1/2\<close>. A query right after that returns the response \<open>[1/2]\<close>, as the
  claim says. A query after \<^verbatim>\<open>set_pathloss(1)\<close> returns \<open>[1]\<close>, and after
  \<^verbatim>\<open>set_pathloss(None)\<close> it returns \<open>[1]\<close> too: not the response with the scaling
  that was applied to the signal.
\<close>

theorem last_response_after_pathloss_change:
  "fst (run (one_tap_channel 1)
          [Set_pathloss (Some (Num (1 / 4))), Corrupt_data [Sample 1],
           Get_last_impulse_response] fresh_channel)
     = [Inr Nothing, Inr (Signal [Sample (1 / 2)]), Inr (Response [Sample (1 / 2)])]
   \<and> fst (run (one_tap_channel 1)
          [Set_pathloss (Some (Num (1 / 4))), Corrupt_data [Sample 1],
           Set_pathloss (Some (Num 1)), Get_last_impulse_response] fresh_channel)
     = [Inr Nothing, Inr (Signal [Sample (1 / 2)]), Inr Nothing, Inr (Response [Sample 1])]
   \<and> fst (run (one_tap_channel 1)
          [Set_pathloss (Some (Num (1 / 4))), Corrupt_data [Sample 1],
           Set_pathloss None, Get_last_impulse_response] fresh_channel)
     = [Inr Nothing, Inr (Signal [Sample (1 / 2)]), Inr Nothing, Inr (Response [Sample 1])]
   \<and> tdl_corrupt_data (one_tap_channel 1) [Sample 1] (tdlchannel fresh_channel)
       = (Inr [Sample 1], Some [Sample 1])
   \<and> ir_rmul (one_tap_channel 1) (Num (1 / 2)) [Sample 1] = Inr [Sample (1 / 2)]
   \<and> Response [Sample (1 / 2)] \<noteq> Response [Sample 1]"
  by (simp add: Let_def set_pathloss_def corrupt_data_def get_last_impulse_response_def
      fresh_channel_def one_tap_channel_def one_tap_corrupt_def one_tap_last_response_def
      one_tap_rmul_def scale_output_def real_sqrt_divide)

section \<open>Path loss: the stored value stays in range\<close>

lemma set_pathloss_in_range:
  assumes "pathloss_number_in_range (pathloss_value ch)"
  shows "pathloss_number_in_range (pathloss_value (snd (set_pathloss v ch)))"
proof (cases v)
  case None
  then show ?thesis by (simp add: set_pathloss_def)
next
  case (Some x)
  then show ?thesis using assms by (cases x) (auto simp add: set_pathloss_def)
qed

lemma corrupt_data_pathloss_value:
  "pathloss_value (snd (corrupt_data tdl signal ch)) = pathloss_value ch"
  by (simp add: corrupt_data_def Let_def split: sum.splits option.splits)

lemma corrupt_data_in_freq_domain_pathloss_value:
  "pathloss_value (snd (corrupt_data_in_freq_domain tdl signal fft_size carrier_indexes ch))
     = pathloss_value ch"
  by (simp add: corrupt_data_in_freq_domain_def Let_def split: sum.splits option.splits)

lemma get_last_impulse_response_pathloss_value:
  "pathloss_value (snd (get_last_impulse_response tdl ch)) = pathloss_value ch"
  by (simp add: get_last_impulse_response_def Let_def split: sum.splits option.splits)

lemma invoke_in_range:
  "pathloss_number_in_range (pathloss_value ch) \<Longrightarrow>
   pathloss_number_in_range (pathloss_value (snd (invoke tdl c ch)))"
  by (cases c)
     (simp_all add: Let_def set_pathloss_in_range corrupt_data_pathloss_value
        corrupt_data_in_freq_domain_pathloss_value get_last_impulse_response_pathloss_value)

lemma run_in_range:
  "pathloss_number_in_range (pathloss_value ch) \<Longrightarrow>
   pathloss_number_in_range (pathloss_value (snd (run tdl calls ch)))"
proof (induction calls arbitrary: ch)
  case Nil
  then show ?case by simp
next
  case (Cons c cs)
  have "pathloss_number_in_range (pathloss_value (snd (invoke tdl c ch)))"
    using Cons.prems by (rule invoke_in_range)
  then have "pathloss_number_in_range
               (pathloss_value (snd (run tdl cs (snd (invoke tdl c ch)))))"
    by (rule Cons.IH)
  then show ?case by (simp add: Let_def)
qed

lemma SuSisoChannel_init_pathloss:
  "SuSisoChannel_init TdlChannel fading_generator channel_profile tap_powers_dB tap_delays Ts
     = Inr ch \<Longrightarrow> pathloss_value ch = None"
  by (auto simp add: SuSisoChannel_init_def split: sum.splits)

lemma pathloss_number_in_range_cases:
  "pathloss_number_in_range p =
     (case p of
        None \<Rightarrow> True
      | Some (Num x) \<Rightarrow> 0 \<le> x \<and> x \<le> 1
      | Some PosInf \<Rightarrow> False
      | Some NegInf \<Rightarrow> False
      | Some NaN \<Rightarrow> True)"
proof (cases p)
  case None
  then show ?thesis by simp
next
  case (Some x)
  then show ?thesis by (cases x) simp_all
qed

text \<open>
  C5, as amended. After any construction that succeeds and any sequence of calls of the
  public methods, raising or not, the stored path loss is \<open>None\<close> or, when it is a
  number, a number in the closed interval \<open>[0, 1]\<close>; it is never an infinity. Zero is
  in: in any such state \<^verbatim>\<open>set_pathloss(0)\<close> returns and stores \<open>0\<close>. Nothing is said of
  NaN.
\<close>

theorem pathloss_state_in_closed_unit_interval:
  assumes "SuSisoChannel_init TdlChannel fading_generator channel_profile tap_powers_dB
             tap_delays Ts = Inr ch"
  shows "(case pathloss_value (snd (run tdl calls ch)) of
            None \<Rightarrow> True
          | Some (Num x) \<Rightarrow> 0 \<le> x \<and> x \<le> 1
          | Some PosInf \<Rightarrow> False
          | Some NegInf \<Rightarrow> False
          | Some NaN \<Rightarrow> True)
         \<and> pathloss_number_in_range (pathloss_value (snd (run tdl calls ch)))
         \<and> run tdl [Set_pathloss (Some (Num 0))] (snd (run tdl calls ch)) =
             ([Inr Nothing], (snd (run tdl calls ch))\<lparr>pathloss_value := Some (Num 0)\<rparr>)"
proof -
  have "pathloss_value ch = None"
    using assms by (rule SuSisoChannel_init_pathloss)
  then have "pathloss_number_in_range (pathloss_value ch)"
    by simp
  then have inv: "pathloss_number_in_range (pathloss_value (snd (run tdl calls ch)))"
    by (rule run_in_range)
  then have explicit: "(case pathloss_value (snd (run tdl calls ch)) of
            None \<Rightarrow> True
          | Some (Num x) \<Rightarrow> 0 \<le> x \<and> x \<le> 1
          | Some PosInf \<Rightarrow> False
          | Some NegInf \<Rightarrow> False
          | Some NaN \<Rightarrow> True)"
    by (simp only: pathloss_number_in_range_cases)
  have zero: "run tdl [Set_pathloss (Some (Num 0))] (snd (run tdl calls ch)) =
             ([Inr Nothing], (snd (run tdl calls ch))\<lparr>pathloss_value := Some (Num 0)\<rparr>)"
    by (simp add: set_pathloss_def Let_def)
  show ?thesis
    using inv explicit zero by simp
qed

theorem pathloss_state_in_closed_unit_interval_witness:
  "SuSisoChannel_init one_tap_TdlChannel None None None None None = Inr fresh_channel
   \<and> pathloss_number_in_range (pathloss_value (snd (run (one_tap_channel 1)
        [Set_pathloss (Some (Num (1 / 2))), Corrupt_data [Sample 1], Set_pathloss (Some (Num 2)),
         Set_pathloss (Some PosInf)] fresh_channel)))
   \<and> pathloss_value (snd (run (one_tap_channel 1)
        [Set_pathloss (Some (Num (1 / 2))), Corrupt_data [Sample 1], Set_pathloss (Some (Num 2)),
         Set_pathloss (Some PosInf)] fresh_channel))
       = Some (Num (1 / 2))"
proof -
  have init: "SuSisoChannel_init one_tap_TdlChannel None None None None None = Inr fresh_channel"
    by (simp add: SuSisoChannel_init_def one_tap_TdlChannel_def fresh_channel_def)
  have stored: "pathloss_value (snd (run (one_tap_channel 1)
        [Set_pathloss (Some (Num (1 / 2))), Corrupt_data [Sample 1], Set_pathloss (Some (Num 2)),
         Set_pathloss (Some PosInf)] fresh_channel))
       = Some (Num (1 / 2))"
    by (simp add: Let_def set_pathloss_def corrupt_data_def fresh_channel_def
        one_tap_channel_def one_tap_corrupt_def)
  note this_run = pathloss_state_in_closed_unit_interval [OF init, of "one_tap_channel 1"
      "[Set_pathloss (Some (Num (1 / 2))), Corrupt_data [Sample 1], Set_pathloss (Some (Num 2)),
        Set_pathloss (Some PosInf)]"]
  show ?thesis
    by (intro conjI) (rule init this_run [THEN conjunct2, THEN conjunct1] stored)+
qed

text \<open>
  C5 as stated fails: on a freshly constructed channel \<^verbatim>\<open>set_pathloss(0)\<close> returns and
  the stored path loss is then \<open>0\<close>, which is not strictly positive.
\<close>

theorem pathloss_zero_is_stored:
  "SuSisoChannel_init one_tap_TdlChannel None None None None None = Inr fresh_channel
   \<and> fst (run (one_tap_channel 1) [Set_pathloss (Some (Num 0))] fresh_channel) = [Inr Nothing]
   \<and> pathloss_value (snd (run (one_tap_channel 1) [Set_pathloss (Some (Num 0))] fresh_channel))
       = Some (Num 0)
   \<and> \<not> pathloss_positive
         (pathloss_value (snd (run (one_tap_channel 1) [Set_pathloss (Some (Num 0))]
                                 fresh_channel)))
   \<and> \<not> (0 < (0::real))"
  by (simp add: Let_def set_pathloss_def fresh_channel_def
      SuSisoChannel_init_def one_tap_TdlChannel_def)

section \<open>Construction: tap arrays that do not match\<close>

text \<open>
  C6. With the inner constructor as the spec describes it, a construction that passes
  tap powers without tap delays, tap delays without tap powers, or tap powers and tap
  delays of different lengths raises, whatever the generator, the profile and \<^verbatim>\<open>Ts\<close>
  are, and whatever the inner constructor would build from consistent arguments: no
  channel object results.
\<close>

theorem mismatched_taps_fail_construction:
  assumes "(\<exists>ps. tap_powers_dB = Some ps \<and> tap_delays = None)
           \<or> (\<exists>ds. tap_powers_dB = None \<and> tap_delays = Some ds)
           \<or> (\<exists>ps ds. tap_powers_dB = Some ps \<and> tap_delays = Some ds
                        \<and> length ps \<noteq> length ds)"
  shows "\<exists>e. SuSisoChannel_init (TdlChannel_init_spec build) fading_generator channel_profile
                 tap_powers_dB tap_delays Ts = Inl e"
  using assms
  by (auto simp add: SuSisoChannel_init_def TdlChannel_init_spec_def
      SuSisoChannel_TdlChannel_args_def taps_consistent_def Let_def)

theorem mismatched_taps_fail_construction_witness:
  "length [0, - 3 :: real] \<noteq> length [0 :: real]
   \<and> (\<exists>e. SuSisoChannel_init (TdlChannel_init_spec one_tap_TdlChannel) None None
              (Some [0, - 3]) (Some [0]) (Some 1) = Inl e)
   \<and> (\<exists>e. SuSisoChannel_init (TdlChannel_init_spec one_tap_TdlChannel) None None
              (Some [0, - 3]) None (Some 1) = Inl e)"
  using mismatched_taps_fail_construction [of "Some [0, - 3]" "Some [0]" one_tap_TdlChannel
      None None "Some 1"]
    mismatched_taps_fail_construction [of "Some [0, - 3]" None one_tap_TdlChannel
      None None "Some 1"]
  by simp

section \<open>randn_c: samples of unit average power\<close>

lemma length_draws: "length (fst (draws draw n r)) = n"
  by (induction n arbitrary: r) (simp_all add: Let_def)

lemma randn_shape: "shape (fst (randn draw args r)) = args"
  by (simp add: randn_def Let_def)

lemma randn_length: "length (data (fst (randn draw args r))) = prod_list args"
  by (simp add: randn_def Let_def length_draws)

lemma randn_c_shape: "shape (fst (randn_c draw args r)) = args"
  by (simp add: randn_c_def Let_def real_times_array_def real_array_plus_def randn_shape)

lemma randn_c_length: "length (data (fst (randn_c draw args r))) = prod_list args"
  by (simp add: randn_c_def Let_def real_times_array_def real_array_plus_def
      complex_times_real_array_def randn_length)

lemma randn_c_nth:
  assumes "i < prod_list args"
  shows "data (fst (randn_c draw args r)) ! i =
     complex_of_real (1 / sqrt 2) *
       (complex_of_real (data (fst (randn draw args r)) ! i)
        + \<i> * complex_of_real (data (fst (randn draw args (snd (randn draw args r)))) ! i))"
  using assms
  by (simp add: randn_c_def Let_def real_times_array_def real_array_plus_def
      complex_times_real_array_def randn_length)

lemma randn_c_Re:
  assumes "i < prod_list args"
  shows "Re (data (fst (randn_c draw args r)) ! i) = data (fst (randn draw args r)) ! i / sqrt 2"
  using assms by (simp add: randn_c_nth)

lemma randn_c_Im:
  assumes "i < prod_list args"
  shows "Im (data (fst (randn_c draw args r)) ! i)
     = data (fst (randn draw args (snd (randn draw args r)))) ! i / sqrt 2"
  using assms by (simp add: randn_c_nth)

lemma coin_first: "data (fst (randn coin_draw [Suc 0] r)) ! 0 = (if even r then 1 else - 1)"
  by (simp add: randn_def coin_draw_def Let_def)

lemma coin_second: "snd (randn coin_draw [Suc 0] r) = r div 2"
  by (simp add: randn_def coin_draw_def Let_def)

text \<open>
  C8. For every shape \<open>args\<close> and every index \<open>i\<close> into the returned array, write \<open>X\<close>
  for element \<open>i\<close> of the first \<^verbatim>\<open>randn\<close> call, \<open>Y\<close> for element \<open>i\<close> of the second and
  \<open>S\<close> for element \<open>i\<close> of the result of \<^verbatim>\<open>randn_c\<close>, all three as functions of the state
  of the generator at the call. The result has the shape asked for and
  \<open>S = (X + \<i> Y) / sqrt 2\<close>, so the law of each part of \<open>S\<close> is the law of a draw scaled
  by \<open>1 / sqrt 2\<close>. The distribution of the draws is numpy's and enters as the
  hypotheses: \<open>E\<close> is an expectation over the generator's state (a linear functional)
  under which \<open>X\<close> and \<open>Y\<close> have mean \<open>0\<close> and second moment \<open>1\<close> and are independent.
  Then the real and the imaginary part of \<open>S\<close> have mean \<open>0\<close> and variance \<open>1/2\<close> each,
  they are independent, and \<open>E |S|\<^sup>2 = 1\<close>.
\<close>

theorem randn_c_unit_power_samples:
  fixes draw :: "'r \<Rightarrow> real \<times> 'r" and E :: "('r \<Rightarrow> real) \<Rightarrow> real"
    and args :: "nat list" and i :: nat
  defines "X \<equiv> \<lambda>r. data (fst (randn draw args r)) ! i"
      and "Y \<equiv> \<lambda>r. data (fst (randn draw args (snd (randn draw args r)))) ! i"
      and "S \<equiv> \<lambda>r. data (fst (randn_c draw args r)) ! i"
  assumes i: "i < prod_list args"
      and linear: "\<forall>a b f g. E (\<lambda>r. a * f r + b * g r) = a * E f + b * E g"
      and mean: "E X = 0 \<and> E Y = 0"
      and var: "E (\<lambda>r. (X r)\<^sup>2) = 1 \<and> E (\<lambda>r. (Y r)\<^sup>2) = 1"
      and indep: "\<forall>f g. E (\<lambda>r. f (X r) * g (Y r)) = E (\<lambda>r. f (X r)) * E (\<lambda>r. g (Y r))"
  shows "(\<forall>r. shape (fst (randn_c draw args r)) = args
              \<and> length (data (fst (randn_c draw args r))) = prod_list args
              \<and> S r = (complex_of_real (X r) + \<i> * complex_of_real (Y r))
                         / complex_of_real (sqrt 2))
         \<and> E (\<lambda>r. Re (S r)) = 0
         \<and> E (\<lambda>r. Im (S r)) = 0
         \<and> E (\<lambda>r. (Re (S r) - E (\<lambda>r. Re (S r)))\<^sup>2) = 1 / 2
         \<and> E (\<lambda>r. (Im (S r) - E (\<lambda>r. Im (S r)))\<^sup>2) = 1 / 2
         \<and> (\<forall>f g. E (\<lambda>r. f (Re (S r)) * g (Im (S r)))
                    = E (\<lambda>r. f (Re (S r))) * E (\<lambda>r. g (Im (S r))))
         \<and> E (\<lambda>r. (cmod (S r))\<^sup>2) = 1
         \<and> (\<forall>f. E (\<lambda>r. f (Re (S r))) = E (\<lambda>r. f (X r / sqrt 2))
                  \<and> E (\<lambda>r. f (Im (S r))) = E (\<lambda>r. f (Y r / sqrt 2)))"
proof -
  have scale: "E (\<lambda>r. a * f r) = a * E f" for a f
    using linear [rule_format, of a f 0 f] by simp
  have add: "E (\<lambda>r. f r + g r) = E f + E g" for f g
    using linear [rule_format, of 1 f 1 g] by simp
  have re: "Re (S r) = (1 / sqrt 2) * X r" for r
    using i by (simp add: S_def X_def randn_c_Re)
  have im: "Im (S r) = (1 / sqrt 2) * Y r" for r
    using i by (simp add: S_def Y_def randn_c_Im)
  have elem: "S r = (complex_of_real (X r) + \<i> * complex_of_real (Y r))
                      / complex_of_real (sqrt 2)" for r
    using i by (simp add: S_def X_def Y_def randn_c_nth divide_inverse mult.commute)
  have mre: "E (\<lambda>r. Re (S r)) = 0"
    using mean by (simp add: re scale del: times_divide_eq_left)
  have mim: "E (\<lambda>r. Im (S r)) = 0"
    using mean by (simp add: im scale del: times_divide_eq_left)
  have sq: "((1 / sqrt 2) * x)\<^sup>2 = (1 / 2) * x\<^sup>2" for x :: real
    by (simp add: power_mult_distrib power_divide)
  have vre: "E (\<lambda>r. (Re (S r))\<^sup>2) = 1 / 2"
  proof -
    have "E (\<lambda>r. (Re (S r))\<^sup>2) = E (\<lambda>r. (1 / 2) * (X r)\<^sup>2)"
      by (simp only: re sq)
    also have "\<dots> = (1 / 2) * E (\<lambda>r. (X r)\<^sup>2)"
      by (rule scale)
    finally show ?thesis using var by simp
  qed
  have vim: "E (\<lambda>r. (Im (S r))\<^sup>2) = 1 / 2"
  proof -
    have "E (\<lambda>r. (Im (S r))\<^sup>2) = E (\<lambda>r. (1 / 2) * (Y r)\<^sup>2)"
      by (simp only: im sq)
    also have "\<dots> = (1 / 2) * E (\<lambda>r. (Y r)\<^sup>2)"
      by (rule scale)
    finally show ?thesis using var by simp
  qed
  have ind: "E (\<lambda>r. f (Re (S r)) * g (Im (S r)))
               = E (\<lambda>r. f (Re (S r))) * E (\<lambda>r. g (Im (S r)))" for f g
    using indep [rule_format, of "\<lambda>x. f ((1 / sqrt 2) * x)" "\<lambda>y. g ((1 / sqrt 2) * y)"]
    by (simp only: re im)
  have "E (\<lambda>r. (cmod (S r))\<^sup>2) = E (\<lambda>r. (Re (S r))\<^sup>2 + (Im (S r))\<^sup>2)"
    by (simp add: cmod_power2)
  also have "\<dots> = E (\<lambda>r. (Re (S r))\<^sup>2) + E (\<lambda>r. (Im (S r))\<^sup>2)"
    by (rule add)
  also have "\<dots> = 1"
    by (simp add: vre vim)
  finally have pw: "E (\<lambda>r. (cmod (S r))\<^sup>2) = 1" .
  have str: "\<forall>r. shape (fst (randn_c draw args r)) = args
              \<and> length (data (fst (randn_c draw args r))) = prod_list args
              \<and> S r = (complex_of_real (X r) + \<i> * complex_of_real (Y r))
                         / complex_of_real (sqrt 2)"
    using elem by (simp add: randn_c_shape randn_c_length)
  have law: "\<forall>f. E (\<lambda>r. f (Re (S r))) = E (\<lambda>r. f (X r / sqrt 2))
                  \<and> E (\<lambda>r. f (Im (S r))) = E (\<lambda>r. f (Y r / sqrt 2))"
    by (simp add: re im)
  have vre': "E (\<lambda>r. (Re (S r) - E (\<lambda>r. Re (S r)))\<^sup>2) = 1 / 2"
    by (simp only: mre diff_zero vre)
  have vim': "E (\<lambda>r. (Im (S r) - E (\<lambda>r. Im (S r)))\<^sup>2) = 1 / 2"
    by (simp only: mim diff_zero vim)
  have ind': "\<forall>f g. E (\<lambda>r. f (Re (S r)) * g (Im (S r)))
                     = E (\<lambda>r. f (Re (S r))) * E (\<lambda>r. g (Im (S r)))"
    by (intro allI) (rule ind)
  show ?thesis
    by (intro conjI) (rule str mre mim vre' vim' ind' pw law)+
qed

theorem randn_c_unit_power_samples_witness:
  "(0::nat) < prod_list [1]
   \<and> (\<forall>a b f g. mean4 (\<lambda>r. a * f r + b * g r) = a * mean4 f + b * mean4 g)
   \<and> mean4 (\<lambda>r. data (fst (randn coin_draw [1] r)) ! 0) = 0
   \<and> mean4 (\<lambda>r. data (fst (randn coin_draw [1] (snd (randn coin_draw [1] r)))) ! 0) = 0
   \<and> mean4 (\<lambda>r. (data (fst (randn coin_draw [1] r)) ! 0)\<^sup>2) = 1
   \<and> mean4 (\<lambda>r. (data (fst (randn coin_draw [1] (snd (randn coin_draw [1] r)))) ! 0)\<^sup>2) = 1
   \<and> data (fst (randn_c coin_draw [1] 2)) ! 0 = (1 - \<i>) / complex_of_real (sqrt 2)
   \<and> mean4 (\<lambda>r. Re (data (fst (randn_c coin_draw [1] r)) ! 0)) = 0
   \<and> mean4 (\<lambda>r. (Re (data (fst (randn_c coin_draw [1] r)) ! 0)
                   - mean4 (\<lambda>r. Re (data (fst (randn_c coin_draw [1] r)) ! 0)))\<^sup>2) = 1 / 2
   \<and> mean4 (\<lambda>r. (cmod (data (fst (randn_c coin_draw [1] r)) ! 0))\<^sup>2) = 1"
proof -
  have h0: "(0::nat) < prod_list [1]"
    by simp
  have h1: "\<forall>a b f g. mean4 (\<lambda>r. a * f r + b * g r) = a * mean4 f + b * mean4 g"
    by (simp add: mean4_def algebra_simps add_divide_distrib)
  have h2a: "mean4 (\<lambda>r. data (fst (randn coin_draw [1] r)) ! 0) = 0"
    by (simp add: coin_first coin_second mean4_def)
  have h2b: "mean4 (\<lambda>r. data (fst (randn coin_draw [1] (snd (randn coin_draw [1] r)))) ! 0) = 0"
    by (simp add: coin_first coin_second mean4_def)
  have h3a: "mean4 (\<lambda>r. (data (fst (randn coin_draw [1] r)) ! 0)\<^sup>2) = 1"
    by (simp add: coin_first coin_second mean4_def)
  have h3b: "mean4 (\<lambda>r. (data (fst (randn coin_draw [1] (snd (randn coin_draw [1] r)))) ! 0)\<^sup>2)
               = 1"
    by (simp add: coin_first coin_second mean4_def)
  have h4: "\<forall>f g. mean4 (\<lambda>r. f (data (fst (randn coin_draw [1] r)) ! 0)
                * g (data (fst (randn coin_draw [1] (snd (randn coin_draw [1] r)))) ! 0))
              = mean4 (\<lambda>r. f (data (fst (randn coin_draw [1] r)) ! 0))
                * mean4 (\<lambda>r. g (data (fst (randn coin_draw [1]
                                               (snd (randn coin_draw [1] r)))) ! 0))"
    by (simp add: coin_first coin_second mean4_def algebra_simps)
  note w = randn_c_unit_power_samples [where draw = coin_draw and E = mean4 and args = "[1]"
      and i = 0, OF h0 h1 conjI [OF h2a h2b] conjI [OF h3a h3b] h4]
  note rest = w [THEN conjunct2]
  have e: "data (fst (randn_c coin_draw [1] 2)) ! 0 = (1 - \<i>) / complex_of_real (sqrt 2)"
    using w [THEN conjunct1, rule_format, of 2] by (simp add: coin_first coin_second)
  have mre: "mean4 (\<lambda>r. Re (data (fst (randn_c coin_draw [1] r)) ! 0)) = 0"
    by (rule rest [THEN conjunct1])
  have vre: "mean4 (\<lambda>r. (Re (data (fst (randn_c coin_draw [1] r)) ! 0)
                   - mean4 (\<lambda>r. Re (data (fst (randn_c coin_draw [1] r)) ! 0)))\<^sup>2) = 1 / 2"
    by (rule rest [THEN conjunct2, THEN conjunct2, THEN conjunct1])
  have pw: "mean4 (\<lambda>r. (cmod (data (fst (randn_c coin_draw [1] r)) ! 0))\<^sup>2) = 1"
    by (rule rest [THEN conjunct2, THEN conjunct2, THEN conjunct2, THEN conjunct2,
          THEN conjunct2, THEN conjunct1])
  show ?thesis
    by (intro conjI) (rule h0 h1 h2a h2b h3a h3b e mre vre pw)+
qed

end
